theory Spec2Isabelle
  imports Main
begin

section \<open>Data model of script.js\<close>

text \<open>
  The storefront script keeps three module-level variables: \<open>PRODUCTS_INDEX\<close> (an
  object used as a dictionary from product id to product), \<open>CART\<close> (an array of cart
  lines) and \<open>WISHLIST\<close> (an array of wishlist entries). Product ids are strings (the
  cart operations compare ids through \<open>String(...)\<close> on both sides, and what they store
  is a string); prices and quantities are whole numbers and are modelled as unbounded
  integers: the rounding of IEEE doubles beyond \<open>2^53\<close>, fractions and \<open>NaN\<close> are outside
  this model.
\<close>

record product =
  p_id :: string
  p_title :: string
  p_price :: int
  p_image :: string
  p_url :: string
  p_shopify :: string

text \<open>
  The object literal pushed by \<open>addToCart\<close>:
  \<open>{id, title, price, qty, img, variant}\<close>. The title is copied from the index entry
  unconverted, so it can be \<open>undefined\<close> (\<open>None\<close>).
\<close>

record cart_line =
  ci_id :: string
  ci_title :: "string option"
  ci_price :: int
  ci_qty :: int
  ci_img :: string
  ci_variant :: string

text \<open>
  An entry of the \<open>WISHLIST\<close> array. The script itself pushes strings only, but the
  array is whatever array the stored text decodes to, so an entry can be of any JSON type.
  The script reads an entry \<open>x\<close> in two ways only: \<open>WISHLIST.includes(s)\<close> compares it
  strictly with a string \<open>s\<close>, which holds for an entry that is that very string and for
  no number, boolean, \<open>null\<close>, array or object; and \<open>String(x)\<close> gives its text. So an
  entry is either a string, or a value of another type that is kept here with its
  \<open>String\<close> text: the number \<open>201\<close> is \<open>OtherEntry ''201''\<close>.
\<close>

datatype wish_entry = StringEntry string | OtherEntry string

fun entryText :: "wish_entry \<Rightarrow> string" where
  "entryText (StringEntry t) = t"
| "entryText (OtherEntry t) = t"

fun isStringEntry :: "wish_entry \<Rightarrow> bool" where
  "isStringEntry (StringEntry t) = True"
| "isStringEntry (OtherEntry t) = False"

text \<open>
  The mutable state. \<open>console\<close> collects the diagnostics written with
  \<open>console.warn\<close> by the cart operations. The calls \<open>saveCart\<close>,
  \<open>saveWishlist\<close>, \<open>renderCartDrawer\<close>, \<open>renderWishlistDrawer\<close>,
  \<open>updateCartCount\<close>, \<open>updateHeartUI\<close> and \<open>showAddedToast\<close> that end the
  operations write to local storage and to the page only; none of them assigns one of the
  three variables, so they do not appear in the state transformers below.
\<close>

record state =
  PRODUCTS_INDEX :: "string \<rightharpoonup> product"
  CART :: "cart_line list"
  WISHLIST :: "wish_entry list"
  console :: "string list"

section \<open>Reading the index\<close>

text \<open>
  \<open>buildProductsIndex\<close> creates \<open>PRODUCTS_INDEX\<close> as the object literal \<open>{}\<close>, so
  \<open>PRODUCTS_INDEX[key]\<close> is an ordinary property read: the own property if the key is
  one, and otherwise whatever the prototype \<open>Object.prototype\<close> has under that name.
  The names below are the properties of \<open>Object.prototype\<close>; each of them reads as a
  function (for \<open>__proto__\<close>: as the prototype object), which is truthy and has no
  \<open>title\<close>, \<open>price\<close>, \<open>image\<close> or \<open>shopify\<close>.
\<close>

definition Object_prototype_names :: "string list" where
  "Object_prototype_names =
     [''constructor'', ''__defineGetter__'', ''__defineSetter__'', ''hasOwnProperty'',
      ''__lookupGetter__'', ''__lookupSetter__'', ''isPrototypeOf'',
      ''propertyIsEnumerable'', ''toString'', ''valueOf'', ''__proto__'',
      ''toLocaleString'']"

datatype index_entry = Undefined | Own product | Inherited

definition indexGet :: "(string \<rightharpoonup> product) \<Rightarrow> string \<Rightarrow> index_entry" where
  "indexGet idx k =
     (case idx k of
        Some p \<Rightarrow> Own p
      | None \<Rightarrow> if k \<in> set Object_prototype_names then Inherited else Undefined)"

text \<open>
  The reads that the script makes on an entry \<open>p\<close>: \<open>p.title\<close> (\<open>None\<close> is
  \<open>undefined\<close>), \<open>Number(p.price || 0)\<close>, \<open>p.image || ""\<close> and
  \<open>p.shopify || ""\<close>; the last one also stands for \<open>(p && p.shopify) || ""\<close>, which
  is \<open>""\<close> when there is no entry.
\<close>

fun entry_title :: "index_entry \<Rightarrow> string option" where
  "entry_title (Own p) = Some (p_title p)"
| "entry_title Inherited = None"
| "entry_title Undefined = None"

fun entry_price :: "index_entry \<Rightarrow> int" where
  "entry_price (Own p) = p_price p"
| "entry_price Inherited = 0"
| "entry_price Undefined = 0"

fun entry_image :: "index_entry \<Rightarrow> string" where
  "entry_image (Own p) = p_image p"
| "entry_image Inherited = ''''"
| "entry_image Undefined = ''''"

fun entry_shopify :: "index_entry \<Rightarrow> string" where
  "entry_shopify (Own p) = p_shopify p"
| "entry_shopify Inherited = ''''"
| "entry_shopify Undefined = ''''"

section \<open>Array helpers\<close>

text \<open>\<open>Array.prototype.findIndex\<close>: the index of the first element satisfying the
  predicate; JavaScript's \<open>-1\<close> is \<open>None\<close>.\<close>

fun findIndex :: "('a \<Rightarrow> bool) \<Rightarrow> 'a list \<Rightarrow> nat option" where
  "findIndex P [] = None"
| "findIndex P (x # xs) = (if P x then Some 0 else map_option Suc (findIndex P xs))"

text \<open>\<open>arr.splice(i, 1)\<close>: the array without the element at index \<open>i\<close>.\<close>

definition splice1 :: "'a list \<Rightarrow> nat \<Rightarrow> 'a list" where
  "splice1 xs i = take i xs @ drop (Suc i) xs"

section \<open>Cart operations\<close>

text \<open>
  \<open>findCartItem(id)\<close> is \<open>CART.find(it => String(it.id) === String(id))\<close>. It returns a
  reference to the first matching element of the array, which \<open>addToCart\<close> then mutates
  in place; the model returns the position of that element.
\<close>

definition findCartItem :: "state \<Rightarrow> string \<Rightarrow> nat option" where
  "findCartItem s pid = findIndex (\<lambda>it. ci_id it = pid) (CART s)"

text \<open>
  \<open>addToCart(id, qty = 1, showToast = true)\<close>. When \<open>PRODUCTS_INDEX[id]\<close> is falsy,
  that is \<open>undefined\<close>, it logs a warning and returns before anything is assigned.
  \<open>Number(qty || 1)\<close> for a new line turns a zero quantity into one; an existing line
  gets \<open>Number(existing.qty) + Number(qty)\<close>. A caller that omits \<open>qty\<close> passes
  \<open>1\<close>. \<open>showToast\<close> only decides whether a notification is shown.
\<close>

definition addToCart :: "string \<Rightarrow> int \<Rightarrow> state \<Rightarrow> state" where
  "addToCart pid qty s =
     (let p = indexGet (PRODUCTS_INDEX s) pid
      in if p = Undefined
         then s\<lparr>console := console s @ [''Product not found: '' @ pid]\<rparr>
         else
           (case findCartItem s pid of
              Some i \<Rightarrow>
                s\<lparr>CART := (CART s)[i := (CART s ! i)\<lparr>ci_qty := ci_qty (CART s ! i) + qty\<rparr>]\<rparr>
            | None \<Rightarrow>
                s\<lparr>CART := CART s @
                   [\<lparr>ci_id = pid, ci_title = entry_title p, ci_price = entry_price p,
                     ci_qty = (if qty = 0 then 1 else qty),
                     ci_img = entry_image p, ci_variant = entry_shopify p\<rparr>]\<rparr>))"

definition removeCartItem :: "string \<Rightarrow> state \<Rightarrow> state" where
  "removeCartItem pid s = s\<lparr>CART := filter (\<lambda>it. ci_id it \<noteq> pid) (CART s)\<rparr>"

text \<open>
  \<open>changeCartQty(id, delta)\<close>: \<open>findIndex\<close>, return when it is \<open>-1\<close>, add
  \<open>delta\<close> to the quantity at that index, and splice the element out when the new
  quantity is \<open><= 0\<close>.
\<close>

definition changeCartQty :: "string \<Rightarrow> int \<Rightarrow> state \<Rightarrow> state" where
  "changeCartQty pid delta s =
     (case findIndex (\<lambda>it. ci_id it = pid) (CART s) of
        None \<Rightarrow> s
      | Some i \<Rightarrow>
          (let cart = (CART s)[i := (CART s ! i)\<lparr>ci_qty := ci_qty (CART s ! i) + delta\<rparr>]
           in if ci_qty (cart ! i) \<le> 0 then s\<lparr>CART := splice1 cart i\<rparr>
              else s\<lparr>CART := cart\<rparr>))"

text \<open>
  \<open>clearCart()\<close> opens with \<open>if (!confirm("Remove all items from cart?")) return;\<close>. The
  answer of the user to that dialog is the argument \<open>confirmed\<close>.
\<close>

definition clearCart :: "bool \<Rightarrow> state \<Rightarrow> state" where
  "clearCart confirmed s = (if \<not> confirmed then s else s\<lparr>CART := []\<rparr>)"

text \<open>
  Quantities are JavaScript numbers. Whole numbers of absolute value up to \<open>2^53\<close> are
  represented exactly, and a sum or difference of two of them is exact when it stays in
  that range; beyond it the additions of the script round, and those of the model do not.
\<close>

definition exactLimit :: int where
  "exactLimit = 2 ^ 53"

section \<open>Wishlist operations\<close>

text \<open>
  \<open>isWishlisted(id)\<close> is \<open>WISHLIST.includes(String(id))\<close>: a strict comparison of the
  entries with the string. \<open>toggleWishlist(id)\<close> removes with
  \<open>WISHLIST.filter(x => String(x) !== id)\<close>, which compares the text of each entry, and
  adds with \<open>WISHLIST.push(id)\<close>, a string.
\<close>

definition isWishlisted :: "state \<Rightarrow> string \<Rightarrow> bool" where
  "isWishlisted s pid = (StringEntry pid \<in> set (WISHLIST s))"

definition toggleWishlist :: "string \<Rightarrow> state \<Rightarrow> state" where
  "toggleWishlist pid s =
     (if isWishlisted s pid
      then s\<lparr>WISHLIST := filter (\<lambda>x. entryText x \<noteq> pid) (WISHLIST s)\<rparr>
      else s\<lparr>WISHLIST := WISHLIST s @ [StringEntry pid]\<rparr>)"

section \<open>The static catalog\<close>

text \<open>
  The constant \<open>PRODUCTS\<close> of the script, and the index as the first two statements of
  \<open>buildProductsIndex\<close> seed it:
  \<open>PRODUCTS.forEach(p => PRODUCTS_INDEX[String(p.id)] = {...p})\<close>.
\<close>

definition PRODUCTS :: "product list" where
  "PRODUCTS =
    [\<lparr>p_id = ''101'', p_title = ''Unisex Hoodie'', p_price = 1099,
      p_image = ''https://desak-sak.myshopify.com/cdn/shop/files/Back_2_c_10_584ee972-23d2-4339-b7af-61cba4019ebb.jpg?v=1763120934&width=832'',
      p_url = ''https://desak-sak.myshopify.com/products/unisex-hoodie-5?variant=58376455094353'',
      p_shopify = ''''\<rparr>,
     \<lparr>p_id = ''102'', p_title = ''Oslo Grey Hoodie'', p_price = 1399,
      p_image = ''https://via.placeholder.com/800x1000?text=Oslo+Grey+Hoodie'',
      p_url = ''https://desak-sak.myshopify.com/products/oslo-grey-hoodie'', p_shopify = ''''\<rparr>,
     \<lparr>p_id = ''103'', p_title = ''Arctic White Hoodie'', p_price = 1499,
      p_image = ''https://via.placeholder.com/800x1000?text=Arctic+White+Hoodie'',
      p_url = ''https://desak-sak.myshopify.com/products/arctic-white-hoodie'', p_shopify = ''''\<rparr>,
     \<lparr>p_id = ''201'', p_title = ''Classic Grey Hoodie'', p_price = 1299,
      p_image = ''https://via.placeholder.com/800x1000?text=Classic+Grey+Hoodie'',
      p_url = ''https://desak-sak.myshopify.com/products/classic-grey-hoodie'', p_shopify = ''''\<rparr>,
     \<lparr>p_id = ''202'', p_title = ''Beige Fleece Hoodie'', p_price = 2499,
      p_image = ''https://via.placeholder.com/800x1000?text=Beige+Fleece+Hoodie'',
      p_url = ''https://desak-sak.myshopify.com/products/beige-fleece-hoodie'', p_shopify = ''''\<rparr>,
     \<lparr>p_id = ''203'', p_title = ''Black Oversized Hoodie'', p_price = 2199,
      p_image = ''https://via.placeholder.com/800x1000?text=Black+Oversized+Hoodie'',
      p_url = ''https://desak-sak.myshopify.com/products/black-oversized-hoodie'', p_shopify = ''''\<rparr>,
     \<lparr>p_id = ''204'', p_title = ''Urban Zip Hoodie'', p_price = 1899,
      p_image = ''https://via.placeholder.com/800x1000?text=Urban+Zip+Hoodie'',
      p_url = ''https://desak-sak.myshopify.com/products/urban-zip-hoodie'', p_shopify = ''''\<rparr>,
     \<lparr>p_id = ''301'', p_title = ''Milan Beige Sweatshirt'', p_price = 999,
      p_image = ''https://via.placeholder.com/800x1000?text=Milan+Beige+Sweatshirt'',
      p_url = ''https://desak-sak.myshopify.com/products/milan-beige-sweatshirt'', p_shopify = ''''\<rparr>,
     \<lparr>p_id = ''302'', p_title = ''Harbor Navy Sweatshirt'', p_price = 1099,
      p_image = ''https://via.placeholder.com/800x1000?text=Harbor+Navy+Sweatshirt'',
      p_url = ''https://desak-sak.myshopify.com/products/harbor-navy-sweatshirt'', p_shopify = ''''\<rparr>,
     \<lparr>p_id = ''401'', p_title = ''Arctic Wool Scarf'', p_price = 699,
      p_image = ''https://via.placeholder.com/800x1000?text=Arctic+Wool+Scarf'',
      p_url = ''https://desak-sak.myshopify.com/products/arctic-wool-scarf'', p_shopify = ''''\<rparr>,
     \<lparr>p_id = ''402'', p_title = ''Nordic Winter Scarf'', p_price = 799,
      p_image = ''https://via.placeholder.com/800x1000?text=Nordic+Winter+Scarf'',
      p_url = ''https://desak-sak.myshopify.com/products/nordic-winter-scarf'', p_shopify = ''''\<rparr>]"

definition seedIndex :: "product list \<Rightarrow> (string \<rightharpoonup> product)" where
  "seedIndex ps = fold (\<lambda>p m. m(p_id p \<mapsto> p)) ps Map.empty"

text \<open>A page state right after loading with nothing stored: the seeded index, an empty
  cart and an empty wishlist.\<close>

definition initialState :: state where
  "initialState =
     \<lparr>PRODUCTS_INDEX = seedIndex PRODUCTS, CART = [], WISHLIST = [], console = []\<rparr>"

text \<open>
  Two more states that the operations produce. In \<open>zeroQtyState\<close> the line of
  product 101 has quantity \<open>0\<close>: \<open>addToCart\<close> adds a negative quantity to an existing
  line without removing it. In \<open>blankVariantState\<close> the index holds a product whose
  \<open>shopify\<close> attribute is a single space (as \<open>buildProductsIndex\<close> takes it from a
  \<open>data-shopify=" "\<close> attribute of a product card), and one unit of it is in the cart.
\<close>

definition zeroQtyState :: state where
  "zeroQtyState = addToCart ''101'' (- 1) (addToCart ''101'' 1 initialState)"

definition blankVariantState :: state where
  "blankVariantState =
     addToCart ''900'' 1
       \<lparr>PRODUCTS_INDEX =
          [''900'' \<mapsto> \<lparr>p_id = ''900'', p_title = ''Product 900'', p_price = 500,
                         p_image = '''', p_url = '''', p_shopify = '' ''\<rparr>],
        CART = [], WISHLIST = [], console = []\<rparr>"

text \<open>
  A page state in which the stored wishlist text was \<open>[201]\<close>: the wishlist holds the
  number 201 and no string.
\<close>

definition numberWishlistState :: state where
  "numberWishlistState = initialState\<lparr>WISHLIST := [OtherEntry ''201'']\<rparr>"

section \<open>Sequences of operations\<close>

text \<open>
  The four state-changing entry points that the page and \<open>window.DESAK\<close> expose for
  the cart and the wishlist, as a datatype, and the state after a sequence of calls.
\<close>

datatype operation =
    AddToCart string int
  | RemoveCartItem string
  | ChangeCartQty string int
  | ToggleWishlist string

fun apply_operation :: "operation \<Rightarrow> state \<Rightarrow> state" where
  "apply_operation (AddToCart pid qty) s = addToCart pid qty s"
| "apply_operation (RemoveCartItem pid) s = removeCartItem pid s"
| "apply_operation (ChangeCartQty pid delta) s = changeCartQty pid delta s"
| "apply_operation (ToggleWishlist pid) s = toggleWishlist pid s"

definition run :: "operation list \<Rightarrow> state \<Rightarrow> state" where
  "run ops s = fold apply_operation ops s"

text \<open>
  The product id of a cart line is its \<open>id\<close>, that of a wishlist entry is its text (the
  script looks an entry up with \<open>PRODUCTS_INDEX[String(id)]\<close>). A state is free of
  duplicates when no two cart lines and no two wishlist entries have the same product id.
\<close>

definition duplicate_free :: "state \<Rightarrow> bool" where
  "duplicate_free s \<longleftrightarrow>
     distinct (map ci_id (CART s)) \<and> distinct (map entryText (WISHLIST s))"

definition string_entries :: "state \<Rightarrow> bool" where
  "string_entries s = list_all isStringEntry (WISHLIST s)"

section \<open>Numbers as text\<close>

text \<open>
  Template literals and \<open>innerText\<close> assignments turn a number into its decimal text.
  For the whole numbers of this model that is an optional minus sign and the decimal
  digits (JavaScript switches to exponent notation from \<open>10^21\<close> on, far beyond the
  exactly represented integers).
\<close>

definition digitChar :: "nat \<Rightarrow> char" where
  "digitChar d = ''0123456789'' ! d"

fun natToString :: "nat \<Rightarrow> string" where
  "natToString n =
     (if n < 10 then [digitChar n] else natToString (n div 10) @ [digitChar (n mod 10)])"

declare natToString.simps [simp del]

definition numberToString :: "int \<Rightarrow> string" where
  "numberToString i =
     (if i < 0 then CHR ''-'' # natToString (nat (- i)) else natToString (nat i))"

section \<open>The cart drawer\<close>

text \<open>
  \<open>DOM.cartItems\<close> and \<open>DOM.cartSubtotal\<close> are element references that are
  \<open>null\<close> when the page has no such element; only their presence matters here.
\<close>

record dom_refs =
  DOM_cartItems :: bool
  DOM_cartSubtotal :: bool

text \<open>
  \<open>renderCartDrawer()\<close>, reduced to what it assigns to \<open>DOM.cartSubtotal.innerText\<close>
  (\<open>None\<close>: nothing is assigned). Without the container it returns at once; for an empty
  cart it writes the text \<open>"0"\<close>; otherwise it accumulates
  \<open>subtotal += Number(item.price || 0) * Number(item.qty || 0)\<close> over the lines with
  \<open>forEach\<close> and writes the number. On integers \<open>x || 0\<close> is \<open>x\<close>. The script
  declares this function twice with the same body; the later declaration is the one in
  effect.
\<close>

definition renderCartDrawer :: "dom_refs \<Rightarrow> state \<Rightarrow> string option" where
  "renderCartDrawer d s =
     (if \<not> DOM_cartItems d then None
      else if CART s = [] then (if DOM_cartSubtotal d then Some ''0'' else None)
      else (let subtotal =
                  fold (\<lambda>item subtotal. subtotal + ci_price item * ci_qty item) (CART s) 0
            in if DOM_cartSubtotal d then Some (numberToString subtotal) else None))"

definition fullPage :: dom_refs where
  "fullPage = \<lparr>DOM_cartItems = True, DOM_cartSubtotal = True\<rparr>"

section \<open>The checkout link\<close>

definition SHOP_DOMAIN :: string where
  "SHOP_DOMAIN = ''desak-sak.myshopify.com''"

text \<open>\<open>Array.prototype.join\<close> on an array of strings.\<close>

fun join :: "string \<Rightarrow> string list \<Rightarrow> string" where
  "join sep [] = ''''"
| "join sep [x] = x"
| "join sep (x # y # ys) = x @ sep @ join sep (y # ys)"

text \<open>
  The variant reference of a cart line, as \<open>buildShopifyCheckoutURL\<close> resolves it:
  \<open>ci.variant || (PRODUCTS_INDEX[ci.id] && PRODUCTS_INDEX[ci.id].shopify) || ""\<close>.
\<close>

definition lineVariant :: "state \<Rightarrow> cart_line \<Rightarrow> string" where
  "lineVariant s ci =
     (if ci_variant ci \<noteq> '''' then ci_variant ci
      else entry_shopify (indexGet (PRODUCTS_INDEX s) (ci_id ci)))"

text \<open>
  \<open>String.prototype.trim\<close> is the browser's: it removes white space and line terminators
  (the ASCII ones and the others of Unicode, such as U+00A0, U+FEFF, U+2028) from both
  ends of a text. It is the parameter \<open>trim\<close> of what follows, and nothing is assumed of
  it. The test that the script applies to a resolved variant reference is
  \<open>variant && String(variant).trim()\<close>: the reference is not empty and trimming does not
  empty it.
\<close>

definition passesVariantTest :: "(string \<Rightarrow> string) \<Rightarrow> string \<Rightarrow> bool" where
  "passesVariantTest trim variant \<longleftrightarrow> variant \<noteq> '''' \<and> trim variant \<noteq> ''''"

text \<open>
  \<open>buildShopifyCheckoutURL()\<close>: the empty string for an empty cart; otherwise one
  \<open>variant:qty\<close> pair is pushed for every line whose variant passes the test, and the
  pairs, if any, are joined after \<open>/cart/\<close>.
\<close>

definition buildShopifyCheckoutURL :: "(string \<Rightarrow> string) \<Rightarrow> state \<Rightarrow> string" where
  "buildShopifyCheckoutURL trim s =
     (if CART s = [] then ''''
      else (let pairs =
                  fold (\<lambda>ci pairs.
                          (let variant = lineVariant s ci
                           in if variant \<noteq> '''' \<and> trim variant \<noteq> ''''
                              then pairs @ [variant @ '':'' @ numberToString (ci_qty ci)]
                              else pairs))
                    (CART s) []
            in if pairs \<noteq> [] then ''https://'' @ SHOP_DOMAIN @ ''/cart/'' @ join '','' pairs
               else ''https://'' @ SHOP_DOMAIN))"

text \<open>The pairs of a cart as a filter and a map: one \<open>variant:qty\<close> text for every
  line whose resolved variant reference passes the test, in cart order.\<close>

definition checkoutPairs :: "(string \<Rightarrow> string) \<Rightarrow> state \<Rightarrow> cart_line list \<Rightarrow> string list" where
  "checkoutPairs trim s xs =
     map (\<lambda>ci. lineVariant s ci @ '':'' @ numberToString (ci_qty ci))
       (filter (\<lambda>ci. passesVariantTest trim (lineVariant s ci)) xs)"

text \<open>
  A sample for the parameter: what \<open>String.prototype.trim\<close> does to a text of ASCII
  characters, where the white space and line terminators are space, tab, line feed,
  vertical tab, form feed and carriage return. The examples below apply it to the texts
  \<open>V1\<close>, a single space and the empty text only.
\<close>

definition isWhiteSpaceASCII :: "char \<Rightarrow> bool" where
  "isWhiteSpaceASCII c \<longleftrightarrow>
     c = CHR '' '' \<or> c = CHR 0x09 \<or> c = CHR 0x0A \<or> c = CHR 0x0B \<or> c = CHR 0x0C
     \<or> c = CHR 0x0D"

definition trimASCII :: "string \<Rightarrow> string" where
  "trimASCII v = rev (dropWhile isWhiteSpaceASCII (rev (dropWhile isWhiteSpaceASCII v)))"

text \<open>A cart of two lines: two units of a product with the variant reference \<open>V1\<close>,
  and one unit of product 101, which has no variant reference in the cart or in the
  index.\<close>

definition mixedCartState :: state where
  "mixedCartState =
     initialState\<lparr>CART :=
       [\<lparr>ci_id = ''500'', ci_title = Some ''Product 500'', ci_price = 100, ci_qty = 2,
         ci_img = '''', ci_variant = ''V1''\<rparr>,
        \<lparr>ci_id = ''101'', ci_title = Some ''Unisex Hoodie'', ci_price = 1099, ci_qty = 1,
         ci_img = '''', ci_variant = ''''\<rparr>]\<rparr>"

section \<open>Loading the persisted lists\<close>

text \<open>
  What \<open>JSON.parse\<close> returns: a JSON value. The representation of numbers is left open.
\<close>

datatype 'n json =
    JNull
  | JBool bool
  | JNumber 'n
  | JString string
  | JArray "'n json list"
  | JObject "(string \<times> 'n json) list"

datatype js_error = SyntaxError

text \<open>
  \<open>JSON.parse\<close> is the browser's; it is a parameter \<open>parse\<close> of the loading
  functions and either returns a value or throws a \<open>SyntaxError\<close>. \<open>localStorage\<close> is
  a dictionary from keys to strings, and \<open>getItem\<close> of a missing key is \<open>null\<close>.
  \<open>safeJSON\<close> is \<open>try { return JSON.parse(s); } catch (e) { return fallback; }\<close>.
\<close>

definition safeJSON ::
  "(string \<Rightarrow> js_error + 'n json) \<Rightarrow> string \<Rightarrow> 'n json \<Rightarrow> js_error + 'n json" where
  "safeJSON parse str fallback =
     (case parse str of Inr v \<Rightarrow> Inr v | Inl e \<Rightarrow> Inr fallback)"

definition loadJSON ::
  "(string \<Rightarrow> js_error + 'n json) \<Rightarrow> (string \<rightharpoonup> string) \<Rightarrow> string \<Rightarrow> 'n json
     \<Rightarrow> js_error + 'n json" where
  "loadJSON parse localStorage k fallback =
     (case localStorage k of
        None \<Rightarrow> Inr fallback
      | Some raw \<Rightarrow> safeJSON parse raw fallback)"

definition Array_isArray :: "'n json \<Rightarrow> bool" where
  "Array_isArray v = (case v of JArray xs \<Rightarrow> True | _ \<Rightarrow> False)"

definition CART_KEY :: string where
  "CART_KEY = ''desak_desak_cart_v2''"

definition WISHLIST_KEY :: string where
  "WISHLIST_KEY = ''desak_desak_wishlist_v2''"

text \<open>
  The two statement pairs that initialise the lists when the script is evaluated:
  \<open>let CART = loadJSON(CART_KEY, []); if (!Array.isArray(CART)) CART = [];\<close> and the same
  for \<open>WISHLIST\<close>. An exception would leave through \<open>Inl\<close>.
\<close>

definition loadList ::
  "(string \<Rightarrow> js_error + 'n json) \<Rightarrow> (string \<rightharpoonup> string) \<Rightarrow> string
     \<Rightarrow> js_error + 'n json" where
  "loadList parse localStorage k =
     (case loadJSON parse localStorage k (JArray []) of
        Inl e \<Rightarrow> Inl e
      | Inr v \<Rightarrow> if \<not> Array_isArray v then Inr (JArray []) else Inr v)"

definition loadCART ::
  "(string \<Rightarrow> js_error + 'n json) \<Rightarrow> (string \<rightharpoonup> string) \<Rightarrow> js_error + 'n json" where
  "loadCART parse localStorage = loadList parse localStorage CART_KEY"

definition loadWISHLIST ::
  "(string \<Rightarrow> js_error + 'n json) \<Rightarrow> (string \<rightharpoonup> string) \<Rightarrow> js_error + 'n json" where
  "loadWISHLIST parse localStorage = loadList parse localStorage WISHLIST_KEY"

text \<open>Sample inputs for the loaders: a storage in which the cart key holds the JSON text of
  an object and the wishlist key holds a text that is no JSON, and the behaviour of
  \<open>JSON.parse\<close> on the four texts used (every other text is outside the sample and is
  rejected here).\<close>

definition sampleParse :: "string \<Rightarrow> js_error + int json" where
  "sampleParse str =
     (if str = ''[]'' then Inr (JArray [])
      else if str = ''{}'' then Inr (JObject [])
      else if str = ''null'' then Inr JNull
      else if str = ''[7]'' then Inr (JArray [JNumber 7])
      else Inl SyntaxError)"

definition sampleStorage :: "string \<rightharpoonup> string" where
  "sampleStorage = [CART_KEY \<mapsto> ''{}'', WISHLIST_KEY \<mapsto> ''<html>'']"

section \<open>Facts about the helpers\<close>

lemma findIndex_None_iff: "findIndex P xs = None \<longleftrightarrow> (\<forall>x \<in> set xs. \<not> P x)"
  by (induction xs) auto

lemma findIndex_Some_D:
  "findIndex P xs = Some i \<Longrightarrow> i < length xs \<and> P (xs ! i) \<and> (\<forall>j < i. \<not> P (xs ! j))"
proof (induction xs arbitrary: i)
  case Nil
  then show ?case by simp
next
  case (Cons x xs)
  show ?case
  proof (cases "P x")
    case True
    with Cons.prems show ?thesis by simp
  next
    case False
    with Cons.prems obtain k where k: "findIndex P xs = Some k" "i = Suc k"
      by auto
    from Cons.IH [OF k(1)] False k(2) show ?thesis
      by (auto simp: less_Suc_eq_0_disj)
  qed
qed

lemma findIndex_append_first:
  "\<forall>y \<in> set pre. \<not> P y \<Longrightarrow> P x \<Longrightarrow>
     findIndex P (pre @ x # post) = Some (length pre)"
  by (induction pre) auto

lemma seedIndex_PRODUCTS_101:
  "seedIndex PRODUCTS ''101'' = Some (hd PRODUCTS)"
  by (simp add: seedIndex_def PRODUCTS_def)

lemma map_ci_id_qty_update:
  "map ci_id (xs[i := (xs ! i)\<lparr>ci_qty := q\<rparr>]) = map ci_id xs"
proof (cases "i < length xs")
  case True
  then have "(map ci_id xs)[i := ci_id (xs ! i)] = map ci_id xs"
    by (metis list_update_id nth_map)
  then show ?thesis by (simp add: map_update)
next
  case False
  then show ?thesis by (simp add: list_update_beyond)
qed

lemma findIndex_map_cong:
  "map P xs = map P ys \<Longrightarrow> findIndex P xs = findIndex P ys"
proof (induction xs arbitrary: ys)
  case Nil
  then show ?case by simp
next
  case (Cons x xs)
  then obtain y ys' where ys: "ys = y # ys'" by (cases ys) auto
  with Cons.prems have "P x = P y" "map P xs = map P ys'" by auto
  with Cons.IH [of ys'] ys show ?case by simp
qed

lemma findIndex_qty_update:
  "findIndex (\<lambda>it. ci_id it = pid) (xs[i := (xs ! i)\<lparr>ci_qty := q\<rparr>])
     = findIndex (\<lambda>it. ci_id it = pid) xs"
proof (rule findIndex_map_cong)
  have "map (\<lambda>a. a = pid) (map ci_id (xs[i := (xs ! i)\<lparr>ci_qty := q\<rparr>]))
     = map (\<lambda>a. a = pid) (map ci_id xs)"
    by (simp only: map_ci_id_qty_update)
  then show "map (\<lambda>it. ci_id it = pid) (xs[i := (xs ! i)\<lparr>ci_qty := q\<rparr>])
     = map (\<lambda>it. ci_id it = pid) xs"
    by (simp add: comp_def)
qed

lemma splice1_append_last: "splice1 (xs @ [x]) (length xs) = xs"
  by (simp add: splice1_def)

lemma splice1_middle: "splice1 (pre @ x # post) (length pre) = pre @ post"
  by (simp add: splice1_def)

lemma distinct_take_drop_Suc: "distinct ys \<Longrightarrow> distinct (take i ys @ drop (Suc i) ys)"
  using set_take_disj_set_drop_if_distinct [of ys i "Suc i"] by simp

lemma distinct_splice1: "distinct (map f xs) \<Longrightarrow> distinct (map f (splice1 xs i))"
proof -
  assume d: "distinct (map f xs)"
  have "map f (splice1 xs i) = take i (map f xs) @ drop (Suc i) (map f xs)"
    by (simp add: splice1_def take_map drop_map)
  with distinct_take_drop_Suc [OF d, of i] show ?thesis by simp
qed

lemma seedIndex_PRODUCTS_999: "seedIndex PRODUCTS ''999'' = None"
  by (simp add: seedIndex_def PRODUCTS_def)

section \<open>No duplicate ids\<close>

subsection \<open>The cart\<close>

lemma addToCart_cart_ids:
  "distinct (map ci_id (CART s)) \<Longrightarrow> distinct (map ci_id (CART (addToCart pid qty s)))"
  by (auto simp: addToCart_def Let_def indexGet_def findCartItem_def map_ci_id_qty_update
      findIndex_None_iff split: option.splits)

lemma removeCartItem_cart_ids:
  "distinct (map ci_id (CART s)) \<Longrightarrow> distinct (map ci_id (CART (removeCartItem pid s)))"
  by (simp add: removeCartItem_def distinct_map_filter)

lemma changeCartQty_cart_ids:
  "distinct (map ci_id (CART s)) \<Longrightarrow> distinct (map ci_id (CART (changeCartQty pid delta s)))"
  by (auto simp: changeCartQty_def Let_def map_ci_id_qty_update
      intro!: distinct_splice1 split: option.splits)

lemma toggleWishlist_CART: "CART (toggleWishlist pid s) = CART s"
  by (simp add: toggleWishlist_def)

lemma apply_operation_cart_ids:
  "distinct (map ci_id (CART s)) \<Longrightarrow> distinct (map ci_id (CART (apply_operation op s)))"
  by (cases op)
    (simp_all add: addToCart_cart_ids removeCartItem_cart_ids changeCartQty_cart_ids
      toggleWishlist_CART)

text \<open>The cart half of the invariant holds from every state: the cart operations compare
  ids through \<open>String\<close> on both sides.\<close>

lemma run_cart_ids:
  "distinct (map ci_id (CART s)) \<Longrightarrow> distinct (map ci_id (CART (run ops s)))"
  unfolding run_def
proof (induction ops arbitrary: s)
  case Nil
  then show ?case by simp
next
  case (Cons op ops)
  from Cons.prems have "distinct (map ci_id (CART (apply_operation op s)))"
    by (rule apply_operation_cart_ids)
  then show ?case using Cons.IH by simp
qed

subsection \<open>The wishlist\<close>

lemma addToCart_WISHLIST: "WISHLIST (addToCart pid qty s) = WISHLIST s"
  by (simp add: addToCart_def Let_def split: option.splits)

lemma removeCartItem_WISHLIST: "WISHLIST (removeCartItem pid s) = WISHLIST s"
  by (simp add: removeCartItem_def)

lemma changeCartQty_WISHLIST: "WISHLIST (changeCartQty pid delta s) = WISHLIST s"
  by (simp add: changeCartQty_def Let_def split: option.splits)

lemma text_of_string_entries:
  assumes "list_all isStringEntry ws" and "StringEntry pid \<notin> set ws"
  shows "pid \<notin> entryText ` set ws"
proof
  assume "pid \<in> entryText ` set ws"
  then obtain e where e: "e \<in> set ws" "entryText e = pid"
    by auto
  with assms(1) have "isStringEntry e"
    by (simp add: list_all_iff)
  with e(2) have "e = StringEntry pid"
    by (cases e) simp_all
  with e(1) assms(2) show False
    by simp
qed

lemma toggleWishlist_string_entries:
  assumes "string_entries s" and "distinct (map entryText (WISHLIST s))"
  shows "string_entries (toggleWishlist pid s)
    \<and> distinct (map entryText (WISHLIST (toggleWishlist pid s)))"
proof (cases "isWishlisted s pid")
  case True
  with assms show ?thesis
    by (simp add: toggleWishlist_def string_entries_def list_all_iff distinct_map_filter)
next
  case False
  then have "StringEntry pid \<notin> set (WISHLIST s)"
    by (simp add: isWishlisted_def)
  with assms(1) have "pid \<notin> entryText ` set (WISHLIST s)"
    unfolding string_entries_def by (rule text_of_string_entries)
  with False assms show ?thesis
    by (simp add: toggleWishlist_def string_entries_def)
qed

lemma apply_operation_string_entries:
  assumes "string_entries s" and "duplicate_free s"
  shows "string_entries (apply_operation op s) \<and> duplicate_free (apply_operation op s)"
proof (cases op)
  case (AddToCart pid qty)
  with assms show ?thesis
    by (simp add: string_entries_def duplicate_free_def addToCart_WISHLIST addToCart_cart_ids)
next
  case (RemoveCartItem pid)
  with assms show ?thesis
    by (simp add: string_entries_def duplicate_free_def removeCartItem_WISHLIST
        removeCartItem_cart_ids)
next
  case (ChangeCartQty pid delta)
  with assms show ?thesis
    by (simp add: string_entries_def duplicate_free_def changeCartQty_WISHLIST
        changeCartQty_cart_ids)
next
  case (ToggleWishlist pid)
  with assms toggleWishlist_string_entries [of s pid] show ?thesis
    by (simp add: duplicate_free_def toggleWishlist_CART)
qed

text \<open>When every wishlist entry is a string, as the script itself stores them, the whole
  invariant holds along every sequence of calls.\<close>

lemma run_duplicate_free_string_entries:
  "string_entries s \<Longrightarrow> duplicate_free s \<Longrightarrow>
     string_entries (run ops s) \<and> duplicate_free (run ops s)"
  unfolding run_def
proof (induction ops arbitrary: s)
  case Nil
  then show ?case by simp
next
  case (Cons op ops)
  from apply_operation_string_entries [OF Cons.prems, of op] Cons.IH show ?case
    by simp
qed

text \<open>
  C1 asks that from a state without duplicates no sequence of cart and wishlist calls leads
  to a cart with two lines, or a wishlist with two entries, for one product id. In the
  script the wishlist half fails on a stored entry that is not a string: with the wishlist
  \<open>[201]\<close>, a state without duplicates, \<open>isWishlisted("201")\<close> is false, because
  \<open>includes\<close> compares strictly, so \<open>toggleWishlist("201")\<close> pushes the string and the
  wishlist is \<open>[201, "201"]\<close>, two entries for product 201.
\<close>

theorem toggleWishlist_number_entry_duplicates:
  "duplicate_free numberWishlistState
   \<and> WISHLIST numberWishlistState = [OtherEntry ''201'']
   \<and> \<not> isWishlisted numberWishlistState ''201''
   \<and> WISHLIST (run [ToggleWishlist ''201''] numberWishlistState)
        = [OtherEntry ''201'', StringEntry ''201'']
   \<and> \<not> duplicate_free (run [ToggleWishlist ''201''] numberWishlistState)"
  by (simp add: duplicate_free_def numberWishlistState_def initialState_def run_def
      toggleWishlist_def isWishlisted_def)

section \<open>Adding an unknown product\<close>

text \<open>When the id is neither a key of the index nor the name of a property of
  \<open>Object.prototype\<close>, \<open>addToCart\<close> leaves the cart, the wishlist and the index as they
  were, for every quantity; its only effect is the warning on the console.\<close>

lemma addToCart_unknown_id:
  "PRODUCTS_INDEX s pid = None \<Longrightarrow> pid \<notin> set Object_prototype_names \<Longrightarrow>
     CART (addToCart pid qty s) = CART s
     \<and> WISHLIST (addToCart pid qty s) = WISHLIST s
     \<and> PRODUCTS_INDEX (addToCart pid qty s) = PRODUCTS_INDEX s
     \<and> console (addToCart pid qty s) = console s @ [''Product not found: '' @ pid]"
  by (simp add: addToCart_def Let_def indexGet_def)

lemma addToCart_unknown_id_999:
  "CART (addToCart ''999'' 3 initialState) = []
   \<and> console (addToCart ''999'' 3 initialState) = [''Product not found: 999'']"
proof -
  have h: "PRODUCTS_INDEX initialState ''999'' = None"
    by (simp add: initialState_def seedIndex_PRODUCTS_999)
  have n: "''999'' \<notin> set Object_prototype_names"
    by (simp add: Object_prototype_names_def)
  from addToCart_unknown_id [OF h n, of 3] show ?thesis
    by (simp add: initialState_def)
qed

text \<open>
  C6 asks for no change of the cart for every id that is not in the index. The id
  \<open>constructor\<close> is not a key of the index, but \<open>PRODUCTS_INDEX["constructor"]\<close> reads the
  inherited function \<open>Object\<close>, which passes the test \<open>if (!p)\<close>: no warning is logged and a
  line with an undefined title and price \<open>0\<close> is pushed.
\<close>

theorem addToCart_inherited_name:
  "PRODUCTS_INDEX initialState ''constructor'' = None
   \<and> CART initialState = []
   \<and> CART (addToCart ''constructor'' 1 initialState) =
        [\<lparr>ci_id = ''constructor'', ci_title = None, ci_price = 0, ci_qty = 1,
          ci_img = '''', ci_variant = ''''\<rparr>]
   \<and> console (addToCart ''constructor'' 1 initialState) = []"
proof -
  have h: "seedIndex PRODUCTS ''constructor'' = None"
    by (simp add: seedIndex_def PRODUCTS_def)
  show ?thesis
    by (simp add: addToCart_def Let_def indexGet_def findCartItem_def initialState_def h
        Object_prototype_names_def)
qed

section \<open>Adding and taking back\<close>

text \<open>
  C5, with the conditions it needs: let the id be in the index, let \<open>1 \<le> n \<le> 2^53\<close>, and
  let every line that the cart already has for the id have a quantity \<open>q\<close> with
  \<open>1 \<le> q\<close> and \<open>q + n \<le> 2^53\<close>, so that the two additions of the script are exact. Then
  \<open>addToCart(id, n)\<close> followed by \<open>changeCartQty(id, -n)\<close> gives back the state before the
  add: a line created by the add is removed again, and an incremented line has its
  former quantity.
\<close>

theorem add_then_changeQty_restores:
  assumes known: "PRODUCTS_INDEX s pid = Some p"
    and n: "1 \<le> n"
    and exact_n: "n \<le> exactLimit"
    and lines: "\<forall>ci \<in> set (CART s).
        ci_id ci = pid \<longrightarrow> 1 \<le> ci_qty ci \<and> ci_qty ci + n \<le> exactLimit"
  shows "changeCartQty pid (- n) (addToCart pid n s) = s"
proof (cases "findIndex (\<lambda>it. ci_id it = pid) (CART s)")
  case None
  then have absent: "\<forall>y \<in> set (CART s). \<not> ci_id y = pid"
    by (simp add: findIndex_None_iff)
  let ?new = "\<lparr>ci_id = pid, ci_title = Some (p_title p), ci_price = p_price p,
      ci_qty = n, ci_img = p_image p, ci_variant = p_shopify p\<rparr>"
  have added: "addToCart pid n s = s\<lparr>CART := CART s @ [?new]\<rparr>"
    using known None n by (simp add: addToCart_def Let_def indexGet_def findCartItem_def)
  have found: "findIndex (\<lambda>it. ci_id it = pid) (CART s @ [?new]) = Some (length (CART s))"
    using findIndex_append_first [of "CART s" "\<lambda>it. ci_id it = pid" ?new "[]"] absent
    by simp
  show ?thesis
    by (simp add: added changeCartQty_def found Let_def splice1_append_last)
next
  case (Some i)
  from findIndex_Some_D [OF Some]
  have i: "i < length (CART s)" and id_i: "ci_id (CART s ! i) = pid"
    by simp_all
  from i have "CART s ! i \<in> set (CART s)" by simp
  with lines id_i have q: "1 \<le> ci_qty (CART s ! i)" by blast
  define cart where
    "cart = (CART s)[i := (CART s ! i)\<lparr>ci_qty := ci_qty (CART s ! i) + n\<rparr>]"
  have added: "addToCart pid n s = s\<lparr>CART := cart\<rparr>"
    using known Some
    by (simp add: addToCart_def Let_def indexGet_def findCartItem_def cart_def)
  have found: "findIndex (\<lambda>it. ci_id it = pid) cart = Some i"
    unfolding cart_def using Some by (simp only: findIndex_qty_update)
  have restored: "cart[i := (cart ! i)\<lparr>ci_qty := ci_qty (cart ! i) - n\<rparr>] = CART s"
    using i by (simp add: cart_def list_update_same_conv)
  show ?thesis
    using q i by (simp add: added changeCartQty_def found Let_def restored)
qed

theorem add_then_changeQty_restores_witness:
  "changeCartQty ''101'' (- 2) (addToCart ''101'' 2 initialState) = initialState
   \<and> changeCartQty ''101'' (- 2) (addToCart ''101'' 2 (addToCart ''101'' 1 initialState))
       = addToCart ''101'' 1 initialState"
proof -
  let ?s1 = "addToCart ''101'' 1 initialState"
  have k0: "PRODUCTS_INDEX initialState ''101'' = Some (hd PRODUCTS)"
    by (simp add: initialState_def seedIndex_PRODUCTS_101)
  have c1: "CART ?s1 =
      [\<lparr>ci_id = ''101'', ci_title = Some (p_title (hd PRODUCTS)),
        ci_price = p_price (hd PRODUCTS), ci_qty = 1, ci_img = p_image (hd PRODUCTS),
        ci_variant = p_shopify (hd PRODUCTS)\<rparr>]"
    by (simp add: addToCart_def Let_def indexGet_def findCartItem_def initialState_def
        seedIndex_PRODUCTS_101)
  have k1: "PRODUCTS_INDEX ?s1 ''101'' = Some (hd PRODUCTS)"
    by (simp add: addToCart_def Let_def indexGet_def findCartItem_def initialState_def
        seedIndex_PRODUCTS_101)
  have p0: "\<forall>ci \<in> set (CART initialState).
      ci_id ci = ''101'' \<longrightarrow> 1 \<le> ci_qty ci \<and> ci_qty ci + 2 \<le> exactLimit"
    by (simp add: initialState_def)
  have p1: "\<forall>ci \<in> set (CART ?s1).
      ci_id ci = ''101'' \<longrightarrow> 1 \<le> ci_qty ci \<and> ci_qty ci + 2 \<le> exactLimit"
    by (simp add: c1 exactLimit_def)
  have n: "(1::int) \<le> 2" by simp
  have e: "(2::int) \<le> exactLimit" by (simp add: exactLimit_def)
  from add_then_changeQty_restores [OF k0 n e p0] add_then_changeQty_restores [OF k1 n e p1]
  show ?thesis by simp
qed

text \<open>
  Without the condition on the line the round trip fails: \<open>addToCart("101", 1)\<close> and then
  \<open>addToCart("101", -1)\<close> leave a line of quantity \<open>0\<close> in the cart; adding one unit and
  taking it back removes that line, because its quantity is again \<open>0\<close>. (Without the
  bound it fails in the script in another way, outside this model: on a line of
  quantity 1, adding \<open>2^53\<close> rounds to \<open>2^53\<close>, and taking \<open>2^53\<close> back leaves \<open>0\<close>.)
\<close>

theorem add_then_changeQty_counterexample:
  "map ci_id (CART zeroQtyState) = [''101'']
   \<and> map ci_qty (CART zeroQtyState) = [0]
   \<and> PRODUCTS_INDEX zeroQtyState ''101'' = Some (hd PRODUCTS)
   \<and> CART (changeCartQty ''101'' (- 1) (addToCart ''101'' 1 zeroQtyState)) = []
   \<and> changeCartQty ''101'' (- 1) (addToCart ''101'' 1 zeroQtyState) \<noteq> zeroQtyState"
proof -
  have z: "zeroQtyState = initialState\<lparr>CART :=
      [\<lparr>ci_id = ''101'', ci_title = Some (p_title (hd PRODUCTS)),
        ci_price = p_price (hd PRODUCTS), ci_qty = 0, ci_img = p_image (hd PRODUCTS),
        ci_variant = p_shopify (hd PRODUCTS)\<rparr>]\<rparr>"
    by (simp add: zeroQtyState_def addToCart_def Let_def indexGet_def findCartItem_def
        initialState_def seedIndex_PRODUCTS_101)
  have r: "CART (changeCartQty ''101'' (- 1) (addToCart ''101'' 1 zeroQtyState)) = []"
    by (simp add: z addToCart_def Let_def indexGet_def findCartItem_def changeCartQty_def
        splice1_def initialState_def seedIndex_PRODUCTS_101)
  have "CART zeroQtyState \<noteq> []" by (simp add: z)
  with r have "changeCartQty ''101'' (- 1) (addToCart ''101'' 1 zeroQtyState) \<noteq> zeroQtyState"
    by metis
  with r show ?thesis
    by (simp add: z initialState_def seedIndex_PRODUCTS_101)
qed

section \<open>The displayed subtotal\<close>

lemma fold_subtotal:
  "fold (\<lambda>item subtotal. subtotal + f item) xs a = a + sum_list (map f xs)"
  for a :: int
  by (induction xs arbitrary: a) simp_all

lemma numberToString_0: "numberToString 0 = ''0''"
  by (simp add: numberToString_def natToString.simps digitChar_def)

lemma numberToString_3297: "numberToString 3297 = ''3297''"
  by (simp add: numberToString_def natToString.simps digitChar_def)

lemma renderCartDrawer_sum:
  "renderCartDrawer d s =
     (if DOM_cartItems d \<and> DOM_cartSubtotal d
      then Some (numberToString (sum_list (map (\<lambda>item. ci_price item * ci_qty item) (CART s))))
      else None)"
  by (simp add: renderCartDrawer_def fold_subtotal numberToString_0 Let_def)

lemma add_twice_101:
  assumes "PRODUCTS_INDEX s ''101'' = Some p" and "CART s = []"
  shows "CART (addToCart ''101'' 2 (addToCart ''101'' 1 s)) =
           [\<lparr>ci_id = ''101'', ci_title = Some (p_title p), ci_price = p_price p, ci_qty = 3,
             ci_img = p_image p, ci_variant = p_shopify p\<rparr>]"
  using assms by (simp add: addToCart_def Let_def indexGet_def findCartItem_def)

text \<open>
  C2: what \<open>renderCartDrawer\<close> writes into the subtotal element is the decimal text of the
  sum, over all cart lines, of price times quantity (nothing is written when the page lacks
  the container or the subtotal element); for an empty cart it is the text of \<open>0\<close>. With
  product 101 at price 1099 in the index and an empty cart, \<open>addToCart("101", 1)\<close> followed
  by \<open>addToCart("101", 2)\<close> gives exactly one line, for id 101 with quantity 3, and the
  subtotal 3297.
\<close>

theorem subtotal_is_sum:
  "renderCartDrawer d s =
     (if DOM_cartItems d \<and> DOM_cartSubtotal d
      then Some (numberToString (sum_list (map (\<lambda>item. ci_price item * ci_qty item) (CART s))))
      else None)
   \<and> (CART s = [] \<longrightarrow> renderCartDrawer fullPage s = Some ''0'')
   \<and> (\<forall>p. PRODUCTS_INDEX s ''101'' = Some p \<and> p_price p = 1099 \<and> CART s = [] \<longrightarrow>
         CART (addToCart ''101'' 2 (addToCart ''101'' 1 s)) =
           [\<lparr>ci_id = ''101'', ci_title = Some (p_title p), ci_price = 1099, ci_qty = 3,
             ci_img = p_image p, ci_variant = p_shopify p\<rparr>]
         \<and> renderCartDrawer fullPage (addToCart ''101'' 2 (addToCart ''101'' 1 s))
             = Some ''3297'')"
proof (intro conjI allI impI)
  show "renderCartDrawer d s =
     (if DOM_cartItems d \<and> DOM_cartSubtotal d
      then Some (numberToString (sum_list (map (\<lambda>item. ci_price item * ci_qty item) (CART s))))
      else None)"
    by (rule renderCartDrawer_sum)
next
  assume "CART s = []"
  then show "renderCartDrawer fullPage s = Some ''0''"
    by (simp add: renderCartDrawer_sum fullPage_def numberToString_0)
next
  fix p
  assume a: "PRODUCTS_INDEX s ''101'' = Some p \<and> p_price p = 1099 \<and> CART s = []"
  then show c: "CART (addToCart ''101'' 2 (addToCart ''101'' 1 s)) =
           [\<lparr>ci_id = ''101'', ci_title = Some (p_title p), ci_price = 1099, ci_qty = 3,
             ci_img = p_image p, ci_variant = p_shopify p\<rparr>]"
    using add_twice_101 [of s p] by simp
  show "renderCartDrawer fullPage (addToCart ''101'' 2 (addToCart ''101'' 1 s))
             = Some ''3297''"
    by (simp add: renderCartDrawer_sum fullPage_def c numberToString_3297)
qed

theorem subtotal_is_sum_witness:
  "renderCartDrawer fullPage initialState = Some ''0''
   \<and> map ci_id (CART (addToCart ''101'' 2 (addToCart ''101'' 1 initialState))) = [''101'']
   \<and> map ci_qty (CART (addToCart ''101'' 2 (addToCart ''101'' 1 initialState))) = [3]
   \<and> renderCartDrawer fullPage (addToCart ''101'' 2 (addToCart ''101'' 1 initialState))
       = Some ''3297''"
proof -
  have price: "p_price (hd PRODUCTS) = 1099"
    by (simp add: PRODUCTS_def)
  have k: "PRODUCTS_INDEX initialState ''101'' = Some (hd PRODUCTS)
      \<and> p_price (hd PRODUCTS) = 1099 \<and> CART initialState = []"
    by (simp add: initialState_def seedIndex_PRODUCTS_101 price)
  have e: "CART initialState = []"
    by (simp add: initialState_def)
  from subtotal_is_sum [of fullPage initialState]
  have "(CART initialState = [] \<longrightarrow> renderCartDrawer fullPage initialState = Some ''0'')
    \<and> (\<forall>p. PRODUCTS_INDEX initialState ''101'' = Some p \<and> p_price p = 1099
            \<and> CART initialState = [] \<longrightarrow>
         CART (addToCart ''101'' 2 (addToCart ''101'' 1 initialState)) =
           [\<lparr>ci_id = ''101'', ci_title = Some (p_title p), ci_price = 1099, ci_qty = 3,
             ci_img = p_image p, ci_variant = p_shopify p\<rparr>]
         \<and> renderCartDrawer fullPage (addToCart ''101'' 2 (addToCart ''101'' 1 initialState))
             = Some ''3297'')"
    by (rule conjunct2)
  with k e show ?thesis
    by auto
qed

section \<open>Toggling the wishlist\<close>

text \<open>
  C8: membership in the wishlist is what \<open>isWishlisted\<close> answers. \<open>toggleWishlist(id)\<close>
  flips the membership of the id and of no other id: when the id is absent the string is
  appended, once; when it is present every entry with that text is filtered out. After an
  add the string occurs exactly once, after a removal not at all. Toggling twice gives
  back the membership of every id, and the entries of the other products stay as they
  were, in their order.
\<close>

theorem toggleWishlist_twice:
  "isWishlisted (toggleWishlist pid s) x =
     (if x = pid then \<not> isWishlisted s pid else isWishlisted s x)
   \<and> WISHLIST (toggleWishlist pid s) =
       (if isWishlisted s pid then filter (\<lambda>e. entryText e \<noteq> pid) (WISHLIST s)
        else WISHLIST s @ [StringEntry pid])
   \<and> count_list (WISHLIST (toggleWishlist pid s)) (StringEntry pid) =
       (if isWishlisted s pid then 0 else 1)
   \<and> isWishlisted (toggleWishlist pid (toggleWishlist pid s)) x = isWishlisted s x
   \<and> filter (\<lambda>e. entryText e \<noteq> pid) (WISHLIST (toggleWishlist pid (toggleWishlist pid s)))
       = filter (\<lambda>e. entryText e \<noteq> pid) (WISHLIST s)"
proof -
  have once: "isWishlisted (toggleWishlist pid t) y =
      (if y = pid then \<not> isWishlisted t pid else isWishlisted t y)" for t y
    by (auto simp: toggleWishlist_def isWishlisted_def)
  have entries: "WISHLIST (toggleWishlist pid s) =
       (if isWishlisted s pid then filter (\<lambda>e. entryText e \<noteq> pid) (WISHLIST s)
        else WISHLIST s @ [StringEntry pid])"
    by (simp add: toggleWishlist_def)
  have counted: "count_list (WISHLIST (toggleWishlist pid s)) (StringEntry pid) =
       (if isWishlisted s pid then 0 else 1)"
    by (auto simp: toggleWishlist_def isWishlisted_def count_list_0_iff)
  have twice: "isWishlisted (toggleWishlist pid (toggleWishlist pid s)) x = isWishlisted s x"
    by (simp add: once)
  have others: "filter (\<lambda>e. entryText e \<noteq> pid)
        (WISHLIST (toggleWishlist pid (toggleWishlist pid s)))
       = filter (\<lambda>e. entryText e \<noteq> pid) (WISHLIST s)"
    by (auto simp: toggleWishlist_def isWishlisted_def)
  from once [of s x] entries counted twice others show ?thesis
    by simp
qed

theorem toggleWishlist_twice_witness:
  "\<not> isWishlisted initialState ''201''
   \<and> isWishlisted (toggleWishlist ''201'' initialState) ''201''
   \<and> \<not> isWishlisted (toggleWishlist ''201'' (toggleWishlist ''201'' initialState)) ''201''
   \<and> \<not> isWishlisted numberWishlistState ''201''
   \<and> isWishlisted (toggleWishlist ''201'' numberWishlistState) ''201''
   \<and> \<not> isWishlisted (toggleWishlist ''201'' (toggleWishlist ''201'' numberWishlistState))
         ''201''"
proof -
  have h: "\<not> isWishlisted initialState ''201''"
    by (simp add: isWishlisted_def initialState_def)
  have k: "\<not> isWishlisted numberWishlistState ''201''"
    by (simp add: isWishlisted_def numberWishlistState_def initialState_def)
  from h k toggleWishlist_twice [of "''201''" initialState "''201''"]
    toggleWishlist_twice [of "''201''" numberWishlistState "''201''"]
  show ?thesis
    by simp
qed

section \<open>Changing a quantity\<close>

lemma changeCartQty_first_line:
  assumes cart: "CART s = pre @ ci # post"
    and ci: "ci_id ci = pid"
    and pre: "\<forall>y \<in> set pre. ci_id y \<noteq> pid"
  shows "changeCartQty pid delta s =
           s\<lparr>CART := (if ci_qty ci + delta \<le> 0 then pre @ post
                       else pre @ ci\<lparr>ci_qty := ci_qty ci + delta\<rparr> # post)\<rparr>"
proof -
  have found: "findIndex (\<lambda>it. ci_id it = pid) (pre @ ci # post) = Some (length pre)"
    using findIndex_append_first [of pre "\<lambda>it. ci_id it = pid" ci post] pre ci by simp
  show ?thesis
    by (simp add: changeCartQty_def cart found Let_def splice1_middle)
qed

lemma changeCartQty_absent:
  "\<forall>y \<in> set (CART s). ci_id y \<noteq> pid \<Longrightarrow> changeCartQty pid delta s = s"
proof -
  assume "\<forall>y \<in> set (CART s). ci_id y \<noteq> pid"
  then have "findIndex (\<lambda>it. ci_id it = pid) (CART s) = None"
    by (simp add: findIndex_None_iff)
  then show ?thesis by (simp add: changeCartQty_def)
qed

text \<open>
  C4: when the cart has a line for the id, \<open>changeCartQty(id, delta)\<close> adds \<open>delta\<close> to the
  quantity of that line (the first one with the id) and leaves the other lines alone; when
  the new quantity is \<open>\<le> 0\<close> the line is taken out of the cart. With a single line for
  101 of quantity 3, \<open>changeCartQty("101", -5)\<close> empties the cart and the subtotal shown is
  0. For an id without a line the state is unchanged.
\<close>

theorem changeCartQty_spec:
  "(\<forall>pre ci post.
       CART s = pre @ ci # post \<and> ci_id ci = pid \<and> (\<forall>y \<in> set pre. ci_id y \<noteq> pid) \<longrightarrow>
       changeCartQty pid delta s =
         s\<lparr>CART := (if ci_qty ci + delta \<le> 0 then pre @ post
                     else pre @ ci\<lparr>ci_qty := ci_qty ci + delta\<rparr> # post)\<rparr>)
   \<and> ((\<forall>y \<in> set (CART s). ci_id y \<noteq> pid) \<longrightarrow> changeCartQty pid delta s = s)
   \<and> (\<forall>ci. CART s = [ci] \<and> ci_id ci = ''101'' \<and> ci_qty ci = 3 \<longrightarrow>
         CART (changeCartQty ''101'' (- 5) s) = []
         \<and> renderCartDrawer fullPage (changeCartQty ''101'' (- 5) s) = Some ''0'')"
proof (intro conjI allI impI)
  fix pre ci post
  assume "CART s = pre @ ci # post \<and> ci_id ci = pid \<and> (\<forall>y \<in> set pre. ci_id y \<noteq> pid)"
  then show "changeCartQty pid delta s =
         s\<lparr>CART := (if ci_qty ci + delta \<le> 0 then pre @ post
                     else pre @ ci\<lparr>ci_qty := ci_qty ci + delta\<rparr> # post)\<rparr>"
    using changeCartQty_first_line [of s pre ci post pid delta] by blast
next
  assume "\<forall>y \<in> set (CART s). ci_id y \<noteq> pid"
  then show "changeCartQty pid delta s = s" by (rule changeCartQty_absent)
next
  fix ci
  assume a: "CART s = [ci] \<and> ci_id ci = ''101'' \<and> ci_qty ci = 3"
  then have "changeCartQty ''101'' (- 5) s = s\<lparr>CART := []\<rparr>"
    using changeCartQty_first_line [of s "[]" ci "[]" "''101''" "- 5"] by simp
  then show c: "CART (changeCartQty ''101'' (- 5) s) = []" by simp
  show "renderCartDrawer fullPage (changeCartQty ''101'' (- 5) s) = Some ''0''"
    by (simp add: renderCartDrawer_def fullPage_def c)
qed

theorem changeCartQty_spec_witness:
  "CART (changeCartQty ''101'' (- 5) (addToCart ''101'' 3 initialState)) = []
   \<and> renderCartDrawer fullPage (changeCartQty ''101'' (- 5) (addToCart ''101'' 3 initialState))
       = Some ''0''
   \<and> map ci_qty (CART (changeCartQty ''101'' 2 (addToCart ''101'' 3 initialState))) = [5]
   \<and> changeCartQty ''102'' 1 (addToCart ''101'' 3 initialState)
       = addToCart ''101'' 3 initialState"
proof -
  let ?ci = "\<lparr>ci_id = ''101'', ci_title = Some (p_title (hd PRODUCTS)),
      ci_price = p_price (hd PRODUCTS), ci_qty = 3, ci_img = p_image (hd PRODUCTS),
      ci_variant = p_shopify (hd PRODUCTS)\<rparr>"
  let ?s = "addToCart ''101'' 3 initialState"
  have c: "CART ?s = [?ci]"
    by (simp add: addToCart_def Let_def indexGet_def findCartItem_def initialState_def
        seedIndex_PRODUCTS_101)
  have c': "CART ?s = [] @ ?ci # []"
    by (simp add: c)
  from changeCartQty_spec [of ?s "''101''" "- 5"] c
  have a: "CART (changeCartQty ''101'' (- 5) ?s) = []
      \<and> renderCartDrawer fullPage (changeCartQty ''101'' (- 5) ?s) = Some ''0''"
    by simp
  from changeCartQty_spec [of ?s "''101''" 2]
  have "\<forall>pre ci post.
       CART ?s = pre @ ci # post \<and> ci_id ci = ''101'' \<and> (\<forall>y \<in> set pre. ci_id y \<noteq> ''101'') \<longrightarrow>
       changeCartQty ''101'' 2 ?s =
         ?s\<lparr>CART := (if ci_qty ci + 2 \<le> 0 then pre @ post
                      else pre @ ci\<lparr>ci_qty := ci_qty ci + 2\<rparr> # post)\<rparr>"
    by (rule conjunct1)
  from this [rule_format, of "[]" ?ci "[]"] c'
  have "changeCartQty ''101'' 2 ?s = ?s\<lparr>CART := [?ci\<lparr>ci_qty := 5\<rparr>]\<rparr>"
    by simp
  then have b: "map ci_qty (CART (changeCartQty ''101'' 2 ?s)) = [5]"
    by simp
  from changeCartQty_spec [of ?s "''102''" 1] c
  have d: "changeCartQty ''102'' 1 ?s = ?s"
    by simp
  from a b d show ?thesis by simp
qed

section \<open>The checkout link of a cart\<close>

lemma fold_pairs:
  "fold (\<lambda>ci pairs.
           (let variant = lineVariant s ci
            in if variant \<noteq> '''' \<and> trim variant \<noteq> ''''
               then pairs @ [variant @ '':'' @ numberToString (ci_qty ci)]
               else pairs)) xs acc
   = acc @ checkoutPairs trim s xs"
  by (induction xs arbitrary: acc)
    (simp_all add: checkoutPairs_def passesVariantTest_def Let_def)

lemma checkoutPairs_empty_iff:
  "checkoutPairs trim s xs = [] \<longleftrightarrow>
     (\<forall>ci \<in> set xs. \<not> passesVariantTest trim (lineVariant s ci))"
  by (simp add: checkoutPairs_def filter_empty_conv)

lemma buildShopifyCheckoutURL_pairs:
  "buildShopifyCheckoutURL trim s =
     (if CART s = [] then ''''
      else if checkoutPairs trim s (CART s) = [] then ''https://desak-sak.myshopify.com''
      else ''https://desak-sak.myshopify.com/cart/'' @
           join '','' (checkoutPairs trim s (CART s)))"
  by (simp add: buildShopifyCheckoutURL_def fold_pairs SHOP_DOMAIN_def)

lemma blankVariantState_eq:
  "CART blankVariantState = [\<lparr>ci_id = ''900'', ci_title = Some ''Product 900'', ci_price = 500,
     ci_qty = 1, ci_img = '''', ci_variant = '' ''\<rparr>]"
  by (simp add: blankVariantState_def addToCart_def Let_def indexGet_def findCartItem_def)

lemma trimASCII_space: "trimASCII '' '' = ''''"
  by (simp add: trimASCII_def isWhiteSpaceASCII_def)

lemma trimASCII_V1: "trimASCII ''V1'' = ''V1''"
  by (simp add: trimASCII_def isWhiteSpaceASCII_def)

text \<open>
  C3, as the code has it, for every behaviour of \<open>String.prototype.trim\<close>: for the empty
  cart the link is the empty string. For a cart with at least one line, the variant
  reference of a line is its own \<open>variant\<close> or, when that is empty, the \<open>shopify\<close>
  attribute of its id in the index; the link is the store origin followed by \<open>/cart/\<close> and
  the \<open>variant:qty\<close> pairs, joined by commas and in cart order, of exactly the lines whose
  variant reference passes \<open>variant && String(variant).trim()\<close>; when no line passes, the
  link is the bare store origin. A cart of one line with reference \<open>V1\<close> (which trimming
  does not empty) and quantity 2 and one line without a reference, in either order, has
  the link that ends in \<open>/cart/V1:2\<close>.
\<close>

theorem buildShopifyCheckoutURL_spec:
  "buildShopifyCheckoutURL trim s =
     (if CART s = [] then ''''
      else if (\<forall>ci \<in> set (CART s). \<not> passesVariantTest trim (lineVariant s ci))
      then ''https://desak-sak.myshopify.com''
      else ''https://desak-sak.myshopify.com/cart/'' @
           join '','' (map (\<lambda>ci. lineVariant s ci @ '':'' @ numberToString (ci_qty ci))
                         (filter (\<lambda>ci. passesVariantTest trim (lineVariant s ci)) (CART s))))
   \<and> (\<forall>a b. (CART s = [a, b] \<or> CART s = [b, a]) \<and> ci_variant a = ''V1'' \<and> ci_qty a = 2
             \<and> trim ''V1'' \<noteq> '''' \<and> lineVariant s b = '''' \<longrightarrow>
         buildShopifyCheckoutURL trim s = ''https://desak-sak.myshopify.com/cart/V1:2'')"
proof (intro conjI allI impI)
  show "buildShopifyCheckoutURL trim s =
     (if CART s = [] then ''''
      else if (\<forall>ci \<in> set (CART s). \<not> passesVariantTest trim (lineVariant s ci))
      then ''https://desak-sak.myshopify.com''
      else ''https://desak-sak.myshopify.com/cart/'' @
           join '','' (map (\<lambda>ci. lineVariant s ci @ '':'' @ numberToString (ci_qty ci))
                         (filter (\<lambda>ci. passesVariantTest trim (lineVariant s ci)) (CART s))))"
    unfolding buildShopifyCheckoutURL_pairs checkoutPairs_empty_iff
    by (simp add: checkoutPairs_def)
next
  fix a b
  assume h: "(CART s = [a, b] \<or> CART s = [b, a]) \<and> ci_variant a = ''V1'' \<and> ci_qty a = 2
      \<and> trim ''V1'' \<noteq> '''' \<and> lineVariant s b = ''''"
  then have va: "lineVariant s a = ''V1''"
    by (simp add: lineVariant_def)
  from h have pa: "passesVariantTest trim ''V1''"
    by (simp add: passesVariantTest_def)
  have pb: "\<not> passesVariantTest trim ''''"
    by (simp add: passesVariantTest_def)
  have two: "numberToString 2 = ''2''"
    by (simp add: numberToString_def natToString.simps digitChar_def)
  from h have nonempty: "CART s \<noteq> []"
    by auto
  from h have "checkoutPairs trim s (CART s) = [''V1:2'']"
  proof (elim conjE disjE)
    assume "CART s = [a, b]" "ci_qty a = 2" "lineVariant s b = ''''"
    with va pa pb show ?thesis
      by (simp add: checkoutPairs_def two)
  next
    assume "CART s = [b, a]" "ci_qty a = 2" "lineVariant s b = ''''"
    with va pa pb show ?thesis
      by (simp add: checkoutPairs_def two)
  qed
  with nonempty
  show "buildShopifyCheckoutURL trim s = ''https://desak-sak.myshopify.com/cart/V1:2''"
    by (simp add: buildShopifyCheckoutURL_pairs)
qed

theorem buildShopifyCheckoutURL_spec_witness:
  "buildShopifyCheckoutURL trimASCII mixedCartState
     = ''https://desak-sak.myshopify.com/cart/V1:2''"
proof -
  let ?a = "\<lparr>ci_id = ''500'', ci_title = Some ''Product 500'', ci_price = 100, ci_qty = 2,
         ci_img = '''', ci_variant = ''V1''\<rparr>"
  let ?b = "\<lparr>ci_id = ''101'', ci_title = Some ''Unisex Hoodie'', ci_price = 1099, ci_qty = 1,
         ci_img = '''', ci_variant = ''''\<rparr>"
  have shopify: "p_shopify (hd PRODUCTS) = ''''"
    by (simp add: PRODUCTS_def)
  have h: "(CART mixedCartState = [?a, ?b] \<or> CART mixedCartState = [?b, ?a])
      \<and> ci_variant ?a = ''V1'' \<and> ci_qty ?a = 2 \<and> trimASCII ''V1'' \<noteq> ''''
      \<and> lineVariant mixedCartState ?b = ''''"
    by (simp add: mixedCartState_def lineVariant_def indexGet_def initialState_def
        seedIndex_PRODUCTS_101 shopify trimASCII_V1)
  from buildShopifyCheckoutURL_spec [of trimASCII mixedCartState]
  have "\<forall>a b. (CART mixedCartState = [a, b] \<or> CART mixedCartState = [b, a])
             \<and> ci_variant a = ''V1'' \<and> ci_qty a = 2 \<and> trimASCII ''V1'' \<noteq> ''''
             \<and> lineVariant mixedCartState b = '''' \<longrightarrow>
         buildShopifyCheckoutURL trimASCII mixedCartState
           = ''https://desak-sak.myshopify.com/cart/V1:2''"
    by (rule conjunct2)
  from this [rule_format, of ?a ?b] h show ?thesis
    by blast
qed

text \<open>The claim as the specification words it gives the bare store origin whenever no line
  has a variant reference. That fails for the empty cart, where the guard at the top of the
  function returns the empty string, whatever trimming does.\<close>

theorem checkoutURL_empty_cart_counterexample:
  "CART initialState = []
   \<and> buildShopifyCheckoutURL trimASCII initialState = ''''
   \<and> buildShopifyCheckoutURL trimASCII initialState \<noteq> ''https://desak-sak.myshopify.com''"
  by (simp add: initialState_def buildShopifyCheckoutURL_def)

text \<open>
  C10, as the code has it, for every behaviour of \<open>String.prototype.trim\<close>: for the empty
  cart the link is the empty string. The link is the bare store origin exactly when the
  cart has a line and no line resolves to a variant reference that passes
  \<open>variant && String(variant).trim()\<close>, that is when each resolved reference is empty
  or is emptied by trimming.
\<close>

theorem checkoutURL_empty_cart_and_origin:
  "(CART s = [] \<longrightarrow> buildShopifyCheckoutURL trim s = '''')
   \<and> (buildShopifyCheckoutURL trim s = ''https://desak-sak.myshopify.com'' \<longleftrightarrow>
        CART s \<noteq> [] \<and> (\<forall>ci \<in> set (CART s). \<not> passesVariantTest trim (lineVariant s ci)))"
  by (simp add: buildShopifyCheckoutURL_pairs checkoutPairs_empty_iff)

theorem checkoutURL_empty_cart_and_origin_witness:
  "CART initialState = []
   \<and> buildShopifyCheckoutURL trimASCII initialState = ''''
   \<and> buildShopifyCheckoutURL trimASCII (addToCart ''101'' 1 initialState)
       = ''https://desak-sak.myshopify.com''"
proof -
  let ?s = "addToCart ''101'' 1 initialState"
  have e: "CART initialState = []"
    by (simp add: initialState_def)
  have shopify: "p_shopify (hd PRODUCTS) = ''''"
    by (simp add: PRODUCTS_def)
  have c: "CART ?s \<noteq> []
      \<and> (\<forall>ci \<in> set (CART ?s). \<not> passesVariantTest trimASCII (lineVariant ?s ci))"
    by (simp add: addToCart_def Let_def indexGet_def findCartItem_def initialState_def
        seedIndex_PRODUCTS_101 lineVariant_def shopify passesVariantTest_def)
  from checkoutURL_empty_cart_and_origin [of initialState trimASCII] e
  have "buildShopifyCheckoutURL trimASCII initialState = ''''"
    by blast
  moreover from checkoutURL_empty_cart_and_origin [of ?s trimASCII] c
  have "buildShopifyCheckoutURL trimASCII ?s = ''https://desak-sak.myshopify.com''"
    by blast
  ultimately show ?thesis using e by simp
qed

text \<open>Read with "non-empty" as "not the empty string", the claim fails: a line whose variant
  reference is a single space resolves to a non-empty reference, trimming empties it, and
  the link of its cart is the bare store origin.\<close>

theorem checkoutURL_blank_variant_counterexample:
  "CART blankVariantState \<noteq> []
   \<and> lineVariant blankVariantState (hd (CART blankVariantState)) = '' ''
   \<and> lineVariant blankVariantState (hd (CART blankVariantState)) \<noteq> ''''
   \<and> trimASCII '' '' = ''''
   \<and> buildShopifyCheckoutURL trimASCII blankVariantState = ''https://desak-sak.myshopify.com''"
  by (simp add: blankVariantState_eq lineVariant_def buildShopifyCheckoutURL_def
      trimASCII_space SHOP_DOMAIN_def)

section \<open>Loading defensively\<close>

lemma loadList_cases:
  "loadList parse localStorage k =
     (case localStorage k of
        None \<Rightarrow> Inr (JArray [])
      | Some raw \<Rightarrow>
          (case parse raw of
             Inl e \<Rightarrow> Inr (JArray [])
           | Inr v \<Rightarrow> if Array_isArray v then Inr v else Inr (JArray [])))"
  by (simp add: loadList_def loadJSON_def safeJSON_def Array_isArray_def
      split: option.splits sum.splits)

lemma Array_isArray_iff: "Array_isArray v \<longleftrightarrow> (\<exists>xs. v = JArray xs)"
  by (cases v) (simp_all add: Array_isArray_def)

text \<open>
  C7: the value that the script holds in \<open>CART\<close> (or \<open>WISHLIST\<close>) after loading is the empty
  array when the key is missing from storage, when the stored text does not parse, and
  when it parses to a value that is not an array. Loading never raises: for every storage
  content and every behaviour of \<open>JSON.parse\<close> the result is an array.
\<close>

theorem load_falls_back_to_empty:
  "(localStorage k = None \<longrightarrow> loadList parse localStorage k = Inr (JArray []))
   \<and> (\<forall>raw e. localStorage k = Some raw \<and> parse raw = Inl e \<longrightarrow>
         loadList parse localStorage k = Inr (JArray []))
   \<and> (\<forall>raw v. localStorage k = Some raw \<and> parse raw = Inr v \<and> \<not> Array_isArray v \<longrightarrow>
         loadList parse localStorage k = Inr (JArray []))
   \<and> (\<exists>xs. loadList parse localStorage k = Inr (JArray xs))
   \<and> loadCART parse localStorage = loadList parse localStorage CART_KEY
   \<and> loadWISHLIST parse localStorage = loadList parse localStorage WISHLIST_KEY"
proof (intro conjI allI impI)
  assume "localStorage k = None"
  then show "loadList parse localStorage k = Inr (JArray [])"
    by (simp add: loadList_cases)
next
  fix raw e
  assume "localStorage k = Some raw \<and> parse raw = Inl e"
  then show "loadList parse localStorage k = Inr (JArray [])"
    by (simp add: loadList_cases)
next
  fix raw v
  assume "localStorage k = Some raw \<and> parse raw = Inr v \<and> \<not> Array_isArray v"
  then show "loadList parse localStorage k = Inr (JArray [])"
    by (simp add: loadList_cases)
next
  show "\<exists>xs. loadList parse localStorage k = Inr (JArray xs)"
    by (auto simp: loadList_cases Array_isArray_iff split: option.splits sum.splits)
next
  show "loadCART parse localStorage = loadList parse localStorage CART_KEY"
    by (simp add: loadCART_def)
next
  show "loadWISHLIST parse localStorage = loadList parse localStorage WISHLIST_KEY"
    by (simp add: loadWISHLIST_def)
qed

theorem load_falls_back_to_empty_witness:
  "loadCART sampleParse sampleStorage = Inr (JArray [])
   \<and> loadWISHLIST sampleParse sampleStorage = Inr (JArray [])
   \<and> loadCART sampleParse Map.empty = Inr (JArray [])"
proof -
  have obj: "sampleStorage CART_KEY = Some ''{}'' \<and> sampleParse ''{}'' = Inr (JObject [])
      \<and> \<not> Array_isArray (JObject [] :: int json)"
    by (simp add: sampleStorage_def sampleParse_def Array_isArray_def CART_KEY_def
        WISHLIST_KEY_def)
  have bad: "sampleStorage WISHLIST_KEY = Some ''<html>''
      \<and> sampleParse ''<html>'' = Inl SyntaxError"
    by (simp add: sampleStorage_def sampleParse_def)
  have missing: "(Map.empty :: string \<rightharpoonup> string) CART_KEY = None"
    by simp
  from load_falls_back_to_empty [of sampleStorage CART_KEY sampleParse] obj
  have a: "loadCART sampleParse sampleStorage = Inr (JArray [])"
    by (metis (no_types, lifting))
  from load_falls_back_to_empty [of sampleStorage WISHLIST_KEY sampleParse] bad
  have b: "loadWISHLIST sampleParse sampleStorage = Inr (JArray [])"
    by (metis (no_types, lifting))
  from load_falls_back_to_empty [of Map.empty CART_KEY sampleParse] missing
  have c: "loadCART sampleParse Map.empty = Inr (JArray [])"
    by (metis (no_types, lifting))
  from a b c show ?thesis by simp
qed

section \<open>Clearing the cart\<close>

text \<open>
  C9, as the code has it: \<open>clearCart\<close> asks for confirmation itself. When the user
  confirms, the cart is the empty array afterwards, whatever it held; when the user
  declines, the state is returned as it was. Nothing but \<open>CART\<close> is assigned.
\<close>

theorem clearCart_gated:
  "CART (clearCart confirmed s) = (if confirmed then [] else CART s)
   \<and> WISHLIST (clearCart confirmed s) = WISHLIST s
   \<and> PRODUCTS_INDEX (clearCart confirmed s) = PRODUCTS_INDEX s
   \<and> clearCart False s = s"
  by (simp add: clearCart_def)

theorem clearCart_gated_witness:
  "CART (clearCart True (addToCart ''101'' 1 initialState)) = []
   \<and> clearCart False (addToCart ''101'' 1 initialState) = addToCart ''101'' 1 initialState"
  using clearCart_gated [of True "addToCart ''101'' 1 initialState"]
    clearCart_gated [of False "addToCart ''101'' 1 initialState"]
  by simp

text \<open>The claim as the specification words it (the cart is empty after every call) fails
  when the dialog is declined on a cart of one line.\<close>

theorem clearCart_declined_counterexample:
  "CART (clearCart False (addToCart ''101'' 1 initialState)) \<noteq> []"
  by (simp add: clearCart_def addToCart_def Let_def indexGet_def findCartItem_def
      initialState_def seedIndex_PRODUCTS_101)

end
